theory Spec2Isabelle
  imports Main "HOL-Library.Sublist" "HOL-Library.AList"
begin

section \<open>Errors\<close>

text \<open>
  Every \<^verbatim>\<open>raise\<close> of \<^verbatim>\<open>databroker/broker.py\<close> is a \<^verbatim>\<open>ValueError\<close> or an
  \<^verbatim>\<open>IndexError\<close>; the tag records the raise site (the message of the source). The
  interpreter's own exceptions (\<^verbatim>\<open>KeyError\<close> of a missing dictionary key,
  \<^verbatim>\<open>TypeError\<close>, the \<^verbatim>\<open>ValueError\<close> of a zero slice step) are values of the same
  type, and \<^verbatim>\<open>Raised\<close> stands for an exception thrown by a collaborator (a handler,
  an alias function).

  The error names of the specification correspond to the tags as follows:
  \<^verbatim>\<open>InvalidRange\<close> is one of \<open>StartMustBeNegative\<close>, \<open>StopMustBeLE0\<close>,
  \<open>StartCannotBeNone\<close>; \<^verbatim>\<open>NotFoundError\<close> is \<open>NoRunForScanId\<close> or \<open>NoSuchRun\<close>;
  \<^verbatim>\<open>AmbiguousKey\<close> is \<open>MatchesRuns n\<close>; \<^verbatim>\<open>IndexOutOfRange\<close> is \<open>IndexError\<close>;
  \<^verbatim>\<open>UnsupportedKeyType\<close> is \<open>MustGiveKey\<close>; \<^verbatim>\<open>IllegalAliasName\<close> is
  \<open>NotLegalAlias\<close>; \<^verbatim>\<open>FieldNotFound\<close> is \<open>FieldNotFound\<close>.
\<close>

datatype vtag =
    MustGiveKey
  | StartMustBeNegative
  | StopMustBeLE0
  | StartCannotBeNone
  | SliceStepZero
  | NoRunForScanId
  | NoSuchRun
  | MatchesRuns nat
  | NotLegalAlias

datatype error =
    ValueError vtag
  | IndexError nat
  | KeyError string
  | TypeError
  | AttributeError string
  | FieldNotFound string
  | Raised string

definition InvalidRange :: "error set" where
  "InvalidRange =
     {ValueError StartMustBeNegative, ValueError StopMustBeLE0, ValueError StartCannotBeNone}"

section \<open>Run documents and the header source\<close>

record run_start =
  uid :: string
  scan_id :: int

record run_stop =
  stop_uid :: string
  run_start_uid :: string

type_synonym run_pair = "run_start \<times> run_stop option"

text \<open>
  The header source \<^verbatim>\<open>db.hs\<close> (module \<^verbatim>\<open>headersource\<close>) is a collaborator of
  \<^verbatim>\<open>search\<close>: the resolver only calls it. It is a parameter of the model, one field
  for each form of call the source makes:
  \<^verbatim>\<open>find_run_starts(uid=key)\<close>, \<^verbatim>\<open>find_run_starts(uid={'$regex': pattern})\<close>,
  \<^verbatim>\<open>find_run_starts(scan_id=key)\<close>, \<^verbatim>\<open>find_last(n)\<close> and
  \<^verbatim>\<open>safe_get_stop(hs, start)\<close>.
\<close>

record header_source =
  find_run_starts_uid :: "string \<Rightarrow> run_start list"
  find_run_starts_regex :: "string \<Rightarrow> run_start list"
  find_run_starts_scan_id :: "int \<Rightarrow> run_start list"
  find_last :: "int \<Rightarrow> run_start list"
  safe_get_stop :: "run_start \<Rightarrow> run_stop option"

section \<open>Python list slicing\<close>

text \<open>\<open>stride k xs\<close> keeps every \<open>k\<close>-th element of \<open>xs\<close>, starting with the first.\<close>

function stride :: "nat \<Rightarrow> 'a list \<Rightarrow> 'a list" where
  "stride k [] = []"
| "stride k (x # xs) = x # stride k (drop (k - 1) xs)"
  by pat_completeness auto
termination
  by (relation "measure (\<lambda>(k, xs). length xs)") auto

text \<open>
  \<^verbatim>\<open>xs[lo::step]\<close> as Python evaluates it: a missing step is 1, a zero step raises
  \<^verbatim>\<open>ValueError\<close>; with a positive step the walk starts at the clamped \<open>lo\<close> and runs to
  the end, with a negative step it starts at the clamped \<open>lo\<close> (the last element when
  \<open>lo\<close> is missing) and runs down to the first element.
\<close>

definition py_slice_from :: "'a list \<Rightarrow> int option \<Rightarrow> int option \<Rightarrow> error + 'a list" where
  "py_slice_from xs lo step =
     (let n = int (length xs);
          st = (case step of None \<Rightarrow> 1 | Some s \<Rightarrow> s)
      in if st = 0 then Inl (ValueError SliceStepZero)
         else if 0 < st then
           (let a = (case lo of None \<Rightarrow> 0
                     | Some i \<Rightarrow> if i < 0 then max (n + i) 0 else min i n)
            in Inr (stride (nat st) (drop (nat a) xs)))
         else
           (let a = (case lo of None \<Rightarrow> n - 1
                     | Some i \<Rightarrow> if i < 0 then max (n + i) (- 1) else min i (n - 1))
            in Inr (stride (nat (- st)) (rev (take (nat (a + 1)) xs)))))"

section \<open>KeyResolver: \<^verbatim>\<open>search\<close>\<close>

text \<open>
  The key of \<^verbatim>\<open>db[key]\<close>, by the classes \<^verbatim>\<open>search\<close> is registered for. A set is given
  in the order its iteration yields the elements. \<open>KOther\<close> is a key of any other
  class, which reaches the default implementation.
\<close>

datatype key =
    KInt int
  | KSlice "int option" "int option" "int option"
  | KStr string
  | KSet "key list"
  | KTuple "key list"
  | KSeq "key list"
  | KOther

definition with_stop :: "header_source \<Rightarrow> run_start list \<Rightarrow> run_pair list" where
  "with_stop hs result = zip result (map (safe_get_stop hs) result)"

definition search_slice ::
  "header_source \<Rightarrow> int option \<Rightarrow> int option \<Rightarrow> int option \<Rightarrow> error + run_pair list" where
  "search_slice hs start stop step =
     (if start \<noteq> None \<and> the start > - 1 then Inl (ValueError StartMustBeNegative)
      else if stop \<noteq> None \<and> the stop > 0 then Inl (ValueError StopMustBeLE0)
      else
        (let stop' = (case stop of None \<Rightarrow> None | Some b \<Rightarrow> Some (- b))
         in case start of
              None \<Rightarrow> Inl (ValueError StartCannotBeNone)
            | Some a \<Rightarrow>
                (case py_slice_from (find_last hs (- a)) stop' step of
                   Inl e \<Rightarrow> Inl e
                 | Inr result \<Rightarrow> Inr (with_stop hs result))))"

text \<open>
  The integer key. In the branch of the \<open>N\<close>-th last run the loop calls \<^verbatim>\<open>next\<close>
  \<open>-key\<close> times and keeps the last value; it raises \<^verbatim>\<open>IndexError\<close> with the number of
  runs seen when the generator ends early.
\<close>

definition search_int :: "header_source \<Rightarrow> int \<Rightarrow> error + run_pair list" where
  "search_int hs k =
     (if k > - 1 then
        (case find_run_starts_scan_id hs k of
           [] \<Rightarrow> Inl (ValueError NoRunForScanId)
         | result # _ \<Rightarrow> Inr [(result, safe_get_stop hs result)])
      else
        (let gen = find_last hs (- k)
         in if length gen < nat (- k) then Inl (IndexError (length gen))
            else (let result = gen ! (nat (- k) - 1)
                  in Inr [(result, safe_get_stop hs result)])))"

definition search_str :: "header_source \<Rightarrow> string \<Rightarrow> error + run_pair list" where
  "search_str hs k =
     (let results = (if length k = 36 then find_run_starts_uid hs k else []);
          results = (if results = [] then find_run_starts_regex hs (k @ ''.*'') else results)
      in if results = [] then Inl (ValueError NoSuchRun)
         else if length results > 1 then Inl (ValueError (MatchesRuns (length results)))
         else Inr [(hd results, safe_get_stop hs (hd results))])"

text \<open>
  \<^verbatim>\<open>sum((search(k, db) for k in key), [])\<close>: the elements are resolved from left to
  right, the first exception ends the sum.
\<close>

fun search :: "header_source \<Rightarrow> key \<Rightarrow> error + run_pair list"
  and search_each :: "header_source \<Rightarrow> key list \<Rightarrow> error + run_pair list" where
  "search hs (KInt n) = search_int hs n"
| "search hs (KSlice a b c) = search_slice hs a b c"
| "search hs (KStr s) = search_str hs s"
| "search hs (KSet ks) = search_each hs ks"
| "search hs (KTuple ks) = search_each hs ks"
| "search hs (KSeq ks) = search_each hs ks"
| "search hs KOther = Inl (ValueError MustGiveKey)"
| "search_each hs [] = Inr []"
| "search_each hs (k # ks) =
     (case search hs k of
        Inl e \<Rightarrow> Inl e
      | Inr r \<Rightarrow> (case search_each hs ks of Inl e \<Rightarrow> Inl e | Inr rs \<Rightarrow> Inr (r @ rs)))"

section \<open>Descriptors, headers and the Broker\<close>

text \<open>
  One entry of a descriptor's \<^verbatim>\<open>data_keys\<close>; \<open>external\<close> is
  \<^verbatim>\<open>v.get('external', None)\<close>. A dictionary whose iteration order the source relies on
  is an association list with distinct keys, in insertion order.
\<close>

record data_key_spec =
  dtype :: string
  external :: "string option"

record descriptor =
  d_uid :: string
  d_name :: string
  data_keys :: "(string \<times> data_key_spec) list"

text \<open>
  A Header joins the start document, the stop document (\<^verbatim>\<open>None\<close> while the run is
  open) and the descriptors of the run. The class lives in \<^verbatim>\<open>core\<close>; the descriptors
  it fetches on first use are a field here.
\<close>

record header =
  start :: run_start
  stop :: "run_stop option"
  descriptors :: "descriptor list"

text \<open>
  The values of an event's \<^verbatim>\<open>data\<close> and \<^verbatim>\<open>filled\<close> dictionaries: reference ids
  (strings), scalars, and the payloads a handler returns.
\<close>

datatype val = VStr string | VInt int | VBool bool | VArr "int list"

text \<open>\<open>doc_name\<close> is the key \<^verbatim>\<open>'_name'\<close> that the document wrapper adds.\<close>

record event =
  descriptor :: string
  seq_num :: int
  data :: "string \<rightharpoonup> val"
  filled :: "string \<rightharpoonup> val"
  doc_name :: "string option"

datatype document =
    DStart run_start
  | DDescriptor descriptor
  | DEvent event
  | DStop run_stop

fun name_of :: "document \<Rightarrow> string" where
  "name_of (DStart _) = ''start''"
| "name_of (DDescriptor _) = ''descriptor''"
| "name_of (DEvent _) = ''event''"
| "name_of (DStop _) = ''stop''"

text \<open>\<open>AllStreams\<close> is the sentinel \<^verbatim>\<open>ALL\<close>.\<close>

datatype stream_name = AllStreams | Stream string

text \<open>
  An asset registry, as far as the fill pipeline uses it: \<^verbatim>\<open>retrieve(datum_id)\<close>, which
  returns the payload or raises. An event source, as far as \<^verbatim>\<open>get_documents\<close> uses
  it: \<^verbatim>\<open>docs_given_header(header, stream_name, fields)\<close>, the documents it yields, each
  under the name of its kind.
\<close>

record registry =
  retrieve :: "val \<Rightarrow> error + val"

type_synonym event_source = "header \<Rightarrow> stream_name \<Rightarrow> string list option \<Rightarrow> document list"

type_synonym query = "string \<rightharpoonup> string"

datatype alias_value =
    Static query
  | Dynamic "error + query"

text \<open>
  A \<^verbatim>\<open>Results\<close> object. Its \<^verbatim>\<open>_res\<close> is an iterator: \<open>res_source\<close> holds what the
  wrapped one-shot iterator has yet to yield, \<open>res_buffer\<close> what \<^verbatim>\<open>itertools.tee\<close> has
  already pulled out of it and keeps for the objects that share the buffer. \<^verbatim>\<open>_res\<close>
  itself is never advanced, so it stands at the start of the buffer.
\<close>

record results =
  res_buffer :: "run_pair list"
  res_source :: "run_pair list"
  res_data_key :: "string option"

text \<open>
  The state of a \<^verbatim>\<open>BrokerES\<close> the modelled methods read. \<open>attrs\<close> is the set of names
  the ordinary attribute lookup finds on the object without running code of the class
  (instance attributes, methods, class attributes, what every object has); \<open>hs_call\<close> is \<^verbatim>\<open>self.hs(text_search=..., filters=..., **kwargs)\<close>;
  \<open>prepare_start\<close>, \<open>prepare_stop\<close>, \<open>prepare_descriptor\<close> and \<open>prepare_event\<close> are
  \<^verbatim>\<open>self.prepare_hook\<close> at the four document names (an attribute of the object, by
  default the wrapper \<^verbatim>\<open>wrap_in_deprecated_doct\<close>), and \<open>prepare_missing_stop\<close> is what
  the hook does with the \<^verbatim>\<open>None\<close> of an open run: the exception it raises, if it raises
  one; \<open>fetch_descriptors\<close> is the lookup of a run's descriptors in the event sources;
  \<open>assets\<close> is the dictionary of registries by name; \<open>mds_lookup\<close> is the exception
  that reading \<^verbatim>\<open>self.hs.mds\<close> raises, if it raises one; \<open>set_order\<close> is the order in
  which the interpreter iterates a set of strings, given with its elements in the order
  they were added (the order follows the hashes of the strings, which change from one
  run of the interpreter to the next).
\<close>

record broker =
  hs :: header_source
  hs_call :: "string option \<Rightarrow> query list \<Rightarrow> query \<Rightarrow> error + run_pair list"
  filters :: "query list"
  aliases :: "string \<rightharpoonup> alias_value"
  attrs :: "string set"
  prepare_start :: "run_start \<Rightarrow> error + run_start"
  prepare_stop :: "run_stop \<Rightarrow> error + run_stop"
  prepare_missing_stop :: "error option"
  prepare_descriptor :: "descriptor \<Rightarrow> error + descriptor"
  prepare_event :: "event \<Rightarrow> error + event"
  fetch_descriptors :: "run_start \<Rightarrow> descriptor list"
  assets :: "string \<rightharpoonup> registry"
  event_sources :: "event_source list"
  mds_lookup :: "error option"
  set_order :: "string list \<Rightarrow> string list"

definition prepare_stop_opt :: "broker \<Rightarrow> run_stop option \<Rightarrow> error + run_stop option" where
  "prepare_stop_opt db t =
     (case t of
        None \<Rightarrow> (case prepare_missing_stop db of Some e \<Rightarrow> Inl e | None \<Rightarrow> Inr None)
      | Some t' \<Rightarrow> (case prepare_stop db t' of Inl e \<Rightarrow> Inl e | Inr t'' \<Rightarrow> Inr (Some t'')))"

text \<open>
  \<^verbatim>\<open>Header(start=self.prepare_hook('start', start), stop=self.prepare_hook('stop', stop),
  db=self)\<close>
\<close>

definition mk_header :: "broker \<Rightarrow> run_pair \<Rightarrow> error + header" where
  "mk_header db p =
     (case prepare_start db (fst p) of
        Inl e \<Rightarrow> Inl e
      | Inr s \<Rightarrow>
          (case prepare_stop_opt db (snd p) of
             Inl e \<Rightarrow> Inl e
           | Inr t \<Rightarrow> Inr \<lparr>start = s, stop = t, descriptors = fetch_descriptors db s\<rparr>))"

fun mk_headers :: "broker \<Rightarrow> run_pair list \<Rightarrow> error + header list" where
  "mk_headers db [] = Inr []"
| "mk_headers db (p # ps) =
     (case mk_header db p of
        Inl e \<Rightarrow> Inl e
      | Inr h \<Rightarrow> (case mk_headers db ps of Inl e \<Rightarrow> Inl e | Inr hs' \<Rightarrow> Inr (h # hs')))"

subsection \<open>\<^verbatim>\<open>BrokerES.__getitem__\<close>\<close>

datatype getitem_result = Squeezed header | Headers "header list"

fun is_multi_key :: "key \<Rightarrow> bool" where
  "is_multi_key (KSet _) = True"
| "is_multi_key (KTuple _) = True"
| "is_multi_key (KSeq _) = True"
| "is_multi_key (KSlice _ _ _) = True"
| "is_multi_key _ = False"

definition getitem :: "broker \<Rightarrow> key \<Rightarrow> error + getitem_result" where
  "getitem db k =
     (case search (hs db) k of
        Inl e \<Rightarrow> Inl e
      | Inr pairs \<Rightarrow>
          (case mk_headers db pairs of
             Inl e \<Rightarrow> Inl e
           | Inr ret \<Rightarrow>
               (let squeeze = (\<not> is_multi_key k)
                in if squeeze \<and> length ret = 1 then Inr (Squeezed (hd ret))
                   else Inr (Headers ret))))"

subsection \<open>\<^verbatim>\<open>Results.__iter__\<close>\<close>

text \<open>
  What a generator does is its trace: the values it yields, and the exception that ends
  it, if one does.
\<close>

type_synonym 'a trace = "'a list \<times> error option"

text \<open>
  The loop of \<^verbatim>\<open>__iter__\<close> over the pairs it reads. The first component counts the
  pairs read from \<^verbatim>\<open>res\<close>.
\<close>

definition has_data_key :: "string \<Rightarrow> header \<Rightarrow> bool" where
  "has_data_key k h = list_ex (\<lambda>d. k \<in> set (map fst (data_keys d))) (descriptors h)"

fun iter_headers :: "broker \<Rightarrow> string option \<Rightarrow> run_pair list \<Rightarrow> nat \<times> header trace" where
  "iter_headers db dk [] = (0, [], None)"
| "iter_headers db dk (p # ps) =
     (case mk_header db p of
        Inl e \<Rightarrow> (1, [], Some e)
      | Inr h \<Rightarrow>
          (let (n, ys, e) = iter_headers db dk ps;
               keep = (case dk of None \<Rightarrow> True | Some k \<Rightarrow> has_data_key k h)
           in (Suc n, (if keep then h # ys else ys), e)))"

text \<open>
  One iteration of a \<^verbatim>\<open>Results\<close> object: \<^verbatim>\<open>self._res, res = itertools.tee(self._res)\<close>
  leaves \<^verbatim>\<open>self._res\<close> at the start of the shared buffer and gives the loop an iterator
  \<^verbatim>\<open>res\<close> of its own from the same place; reading past the buffer pulls from the
  wrapped iterator into the buffer. \<open>limit\<close> is the number of pairs after which the
  consumer abandons the iteration (\<open>None\<close>: it runs to the end). The result is the
  object afterwards and the trace.
\<close>

definition results_iter :: "broker \<Rightarrow> results \<Rightarrow> nat option \<Rightarrow> results \<times> header trace" where
  "results_iter db r limit =
     (let avail = res_buffer r @ res_source r;
          window = (case limit of None \<Rightarrow> avail | Some n \<Rightarrow> take n avail);
          (n, t) = iter_headers db (res_data_key r) window;
          m = max n (length (res_buffer r))
      in (r\<lparr>res_buffer := take m avail, res_source := drop m avail\<rparr>, t))"

subsection \<open>\<^verbatim>\<open>__call__\<close>, \<^verbatim>\<open>__getattr__\<close> and the aliases\<close>

text \<open>
  \<^verbatim>\<open>__call__(self, text_search=None, **kwargs)\<close>. Passing \<^verbatim>\<open>filters=self.filters\<close>
  together with \<^verbatim>\<open>**kwargs\<close> raises \<^verbatim>\<open>TypeError\<close> when the keywords hold
  \<^verbatim>\<open>'filters'\<close> too.
\<close>

definition broker_call :: "broker \<Rightarrow> string option \<Rightarrow> query \<Rightarrow> error + results" where
  "broker_call db text_search kwargs =
     (let dk = kwargs ''data_key'';
          kwargs' = kwargs(''data_key'' := None)
      in if kwargs' ''filters'' \<noteq> None then Inl TypeError
         else (case hs_call db text_search (filters db) kwargs' of
                 Inl e \<Rightarrow> Inl e
               | Inr res \<Rightarrow> Inr \<lparr>res_buffer = [], res_source = res, res_data_key = dk\<rparr>))"

text \<open>
  \<^verbatim>\<open>self(**query)\<close>: the key \<^verbatim>\<open>'text_search'\<close> binds the named parameter, and a key
  \<^verbatim>\<open>'self'\<close> is a second value for the first parameter, a \<^verbatim>\<open>TypeError\<close>.
\<close>

definition call_with_query :: "broker \<Rightarrow> query \<Rightarrow> error + results" where
  "call_with_query db q =
     (if q ''self'' = None
      then broker_call db (q ''text_search'') (q(''text_search'' := None))
      else Inl TypeError)"

text \<open>\<^verbatim>\<open>__getattr__\<close>, which Python calls when the ordinary lookup finds nothing.\<close>

definition broker_getattr :: "broker \<Rightarrow> string \<Rightarrow> error + results" where
  "broker_getattr db k =
     (case aliases db k of
        None \<Rightarrow> Inl (AttributeError k)
      | Some (Static q) \<Rightarrow> call_with_query db q
      | Some (Dynamic f) \<Rightarrow> (case f of Inl e \<Rightarrow> Inl e | Inr q \<Rightarrow> call_with_query db q))"

text \<open>
  The ordinary attribute lookup on the object. The class has four properties, which
  run their getter: \<^verbatim>\<open>reg\<close> returns \<^verbatim>\<open>self.assets['']\<close>, \<^verbatim>\<open>fs\<close> returns \<^verbatim>\<open>self.reg\<close>,
  \<^verbatim>\<open>mds\<close> returns \<^verbatim>\<open>self.hs.mds\<close> and \<^verbatim>\<open>filters\<close> returns \<^verbatim>\<open>self._filters\<close>. Any other
  name is found or not.
\<close>

datatype lookup = Found | Missing | Failing error

definition ordinary_lookup :: "broker \<Rightarrow> string \<Rightarrow> lookup" where
  "ordinary_lookup db k =
     (if k = ''reg'' \<or> k = ''fs'' then
        (case assets db [] of None \<Rightarrow> Failing (KeyError []) | Some _ \<Rightarrow> Found)
      else if k = ''mds'' then
        (case mds_lookup db of None \<Rightarrow> Found | Some e \<Rightarrow> Failing e)
      else if k = ''filters'' then
        (if ''_filters'' \<in> attrs db then Found else Failing (AttributeError ''_filters''))
      else if k \<in> attrs db then Found
      else Missing)"

text \<open>
  \<^verbatim>\<open>hasattr(self, key)\<close> (Python 3): \<^verbatim>\<open>getattr\<close> is tried. When the ordinary lookup
  finds nothing or ends in \<^verbatim>\<open>AttributeError\<close>, \<^verbatim>\<open>__getattr__\<close> is called. An
  \<^verbatim>\<open>AttributeError\<close> out of that means \<^verbatim>\<open>False\<close>; any other exception, of a getter or
  of \<^verbatim>\<open>__getattr__\<close>, propagates.
\<close>

definition getattr_fallback :: "broker \<Rightarrow> string \<Rightarrow> error + bool" where
  "getattr_fallback db k =
     (case broker_getattr db k of
        Inl (AttributeError _) \<Rightarrow> Inr False
      | Inl e \<Rightarrow> Inl e
      | Inr _ \<Rightarrow> Inr True)"

definition broker_hasattr :: "broker \<Rightarrow> string \<Rightarrow> error + bool" where
  "broker_hasattr db k =
     (case ordinary_lookup db k of
        Found \<Rightarrow> Inr True
      | Missing \<Rightarrow> getattr_fallback db k
      | Failing (AttributeError _) \<Rightarrow> getattr_fallback db k
      | Failing e \<Rightarrow> Inl e)"

definition register_alias :: "broker \<Rightarrow> string \<Rightarrow> alias_value \<Rightarrow> error + broker" where
  "register_alias db k v =
     (case broker_hasattr db k of
        Inl e \<Rightarrow> Inl e
      | Inr h \<Rightarrow>
          if h \<and> aliases db k = None then Inl (ValueError NotLegalAlias)
          else Inr (db\<lparr>aliases := (aliases db)(k \<mapsto> v)\<rparr>))"

text \<open>
  \<^verbatim>\<open>alias(key, **query)\<close> and \<^verbatim>\<open>dynamic_alias(key, func)\<close> have the same body but
  for the value stored. The outcome of calling \<^verbatim>\<open>func()\<close> stands for \<^verbatim>\<open>func\<close>. A
  keyword \<^verbatim>\<open>self\<close> or \<^verbatim>\<open>key\<close> in the query of \<^verbatim>\<open>alias\<close> is a second value for a
  parameter of the method: the call raises \<^verbatim>\<open>TypeError\<close> before the body runs.
\<close>

definition alias_query :: "broker \<Rightarrow> string \<Rightarrow> query \<Rightarrow> error + broker" where
  "alias_query db k q =
     (if q ''self'' = None \<and> q ''key'' = None then register_alias db k (Static q)
      else Inl TypeError)"

definition dynamic_alias :: "broker \<Rightarrow> string \<Rightarrow> (error + query) \<Rightarrow> error + broker" where
  "dynamic_alias db k func = register_alias db k (Dynamic func)"

section \<open>FillPipeline\<close>

text \<open>
  The \<^verbatim>\<open>fields\<close> argument: \<^verbatim>\<open>True\<close>, \<^verbatim>\<open>False\<close>, \<^verbatim>\<open>None\<close>, a set of names, or another
  iterable of names (a list, a tuple).
\<close>

datatype fields = FBool bool | FNone | FSet "string list" | FSeq "string list"

text \<open>
  \<^verbatim>\<open>fields\<close> after the first statement of the function, when it was not \<^verbatim>\<open>False\<close>:
  \<^verbatim>\<open>None\<close> (\<open>NAll\<close>), a set, or a falsy value left as it was; of these the empty set is
  a set, and an empty list or tuple is \<open>NEmptySeq\<close>.
\<close>

datatype norm_fields = NAll | NSet "string list" | NEmptySeq

fun norm :: "fields \<Rightarrow> norm_fields" where
  "norm (FBool _) = NAll"
| "norm FNone = NAll"
| "norm (FSet xs) = NSet xs"
| "norm (FSeq xs) = (if xs = [] then NEmptySeq else NSet xs)"

text \<open>
  \<^verbatim>\<open>if fields is not None: fill_keys &= fields\<close>; the operator raises \<^verbatim>\<open>TypeError\<close> when
  its right operand is not a set.
\<close>

fun restrict_keys :: "norm_fields \<Rightarrow> string list \<Rightarrow> error + string list" where
  "restrict_keys NAll ks = Inr ks"
| "restrict_keys (NSet xs) ks = Inr (filter (\<lambda>k. k \<in> set xs) ks)"
| "restrict_keys NEmptySeq ks = Inl TypeError"

type_synonym registry_map = "(string \<times> string) \<rightharpoonup> registry"
type_synonym fill_map = "(string \<times> string list) list"

text \<open>
  The inner loop of the setup, over one descriptor's \<^verbatim>\<open>data_keys\<close>: a key whose
  \<^verbatim>\<open>external\<close> entry is truthy is recorded in \<^verbatim>\<open>registry_map\<close> under
  \<^verbatim>\<open>(desc_id, k)\<close> with the registry \<^verbatim>\<open>self.assets['']\<close>, and added to \<^verbatim>\<open>fill_keys\<close>.
  The set \<^verbatim>\<open>fill_keys\<close> is the list of its elements, the last added first; where the
  source iterates it, the order is that of \<open>set_order\<close>.
\<close>

fun external_keys ::
  "(string \<rightharpoonup> registry) \<Rightarrow> string \<Rightarrow> (string \<times> data_key_spec) list \<Rightarrow>
   registry_map \<times> string list \<Rightarrow> error + registry_map \<times> string list" where
  "external_keys asts desc_id [] acc = Inr acc"
| "external_keys asts desc_id ((k, v) # kvs) (rm, fill_keys) =
     (case external v of
        None \<Rightarrow> external_keys asts desc_id kvs (rm, fill_keys)
      | Some ext \<Rightarrow>
          if ext = [] then external_keys asts desc_id kvs (rm, fill_keys)
          else (case asts [] of
                  None \<Rightarrow> Inl (KeyError [])
                | Some reg \<Rightarrow>
                    external_keys asts desc_id kvs
                      (rm((desc_id, k) \<mapsto> reg), List.insert k fill_keys)))"

text \<open>The outer loop of the setup: \<^verbatim>\<open>for d in descriptors\<close>.\<close>

fun fill_setup ::
  "(string \<rightharpoonup> registry) \<Rightarrow> norm_fields \<Rightarrow> descriptor list \<Rightarrow>
   registry_map \<times> fill_map \<Rightarrow> error + registry_map \<times> fill_map" where
  "fill_setup asts nf [] acc = Inr acc"
| "fill_setup asts nf (d # ds) (rm, fm) =
     (case external_keys asts (d_uid d) (data_keys d) (rm, []) of
        Inl e \<Rightarrow> Inl e
      | Inr (rm', fill_keys) \<Rightarrow>
          (case restrict_keys nf (rev fill_keys) of
             Inl e \<Rightarrow> Inl e
           | Inr fill_keys' \<Rightarrow>
               fill_setup asts nf ds (rm', AList.update (d_uid d) fill_keys' fm)))"

text \<open>
  The coroutine after it has been primed (\<^verbatim>\<open>proc_gen.send(None)\<close>), waiting at its
  \<^verbatim>\<open>yield\<close>: either the pass-through loop of \<^verbatim>\<open>fields is False\<close>, or the filling loop with
  the two maps of the setup.
\<close>

datatype coro = Passthrough | Filling registry_map fill_map bool

definition fill_events_coro ::
  "broker \<Rightarrow> descriptor list \<Rightarrow> fields \<Rightarrow> bool \<Rightarrow> error + coro" where
  "fill_events_coro db descs flds inplace =
     (if flds = FBool False then Inr Passthrough
      else (case fill_setup (assets db) (norm flds) descs (Map.empty, []) of
              Inl e \<Rightarrow> Inl e
            | Inr (rm, fm) \<Rightarrow> Inr (Filling rm fm inplace)))"

text \<open>
  The body of the two nested loops over \<^verbatim>\<open>fill_map\<close>, for one key \<^verbatim>\<open>dk\<close>:
  \<^verbatim>\<open>d_id = data[dk]\<close>, \<^verbatim>\<open>data[dk] = registry_map[(desc_id, dk)].retrieve(d_id)\<close>,
  \<^verbatim>\<open>filled[dk] = d_id\<close>.
\<close>

definition fill_key :: "registry_map \<Rightarrow> event \<Rightarrow> string \<Rightarrow> error + event" where
  "fill_key rm ev dk =
     (case data ev dk of
        None \<Rightarrow> Inl (KeyError dk)
      | Some d_id \<Rightarrow>
          (case rm (descriptor ev, dk) of
             None \<Rightarrow> Inl (KeyError (descriptor ev @ '', '' @ dk))
           | Some reg \<Rightarrow>
               (case retrieve reg d_id of
                  Inl e \<Rightarrow> Inl e
                | Inr payload \<Rightarrow>
                    Inr (ev\<lparr>data := (data ev)(dk \<mapsto> payload),
                            filled := (filled ev)(dk \<mapsto> d_id)\<rparr>))))"

fun fill_keys_loop :: "registry_map \<Rightarrow> string list \<Rightarrow> event \<Rightarrow> error + event" where
  "fill_keys_loop rm [] ev = Inr ev"
| "fill_keys_loop rm (dk # dks) ev =
     (case fill_key rm ev dk of Inl e \<Rightarrow> Inl e | Inr ev' \<Rightarrow> fill_keys_loop rm dks ev')"

text \<open>\<^verbatim>\<open>_sanitize\<close> on an event: a plain dictionary without the key \<^verbatim>\<open>'_name'\<close>.\<close>

definition sanitize :: "event \<Rightarrow> event" where
  "sanitize ev = ev\<lparr>doc_name := None\<rparr>"

text \<open>
  One \<^verbatim>\<open>proc_gen.send(ev)\<close>. The loops run over every entry of \<^verbatim>\<open>fill_map\<close>
  (\<^verbatim>\<open>for k, v in six.iteritems(fill_map): for dk in v\<close>), in the order of the
  dictionary, and over each set \<^verbatim>\<open>v\<close> in the order of the interpreter.
\<close>

fun coro_send :: "broker \<Rightarrow> coro \<Rightarrow> event \<Rightarrow> error + event" where
  "coro_send db Passthrough ev = Inr ev"
| "coro_send db (Filling rm fm inplace) ev =
     (case (if inplace then Inr ev else prepare_event db (sanitize ev)) of
        Inl e \<Rightarrow> Inl e
      | Inr ev' \<Rightarrow> fill_keys_loop rm (concat (map (\<lambda>(k, v). set_order db v) fm)) ev')"

fun send_all :: "broker \<Rightarrow> coro \<Rightarrow> event list \<Rightarrow> event trace" where
  "send_all db c [] = ([], None)"
| "send_all db c (ev # evs) =
     (case coro_send db c ev of
        Inl e \<Rightarrow> ([], Some e)
      | Inr ev' \<Rightarrow> (let (ys, e) = send_all db c evs in (ev' # ys, e)))"

definition fill_events ::
  "broker \<Rightarrow> event list \<Rightarrow> descriptor list \<Rightarrow> fields \<Rightarrow> bool \<Rightarrow> event trace" where
  "fill_events db events descs flds inplace =
     (case fill_events_coro db descs flds inplace of
        Inl e \<Rightarrow> ([], Some e)
      | Inr c \<Rightarrow> send_all db c events)"

subsection \<open>\<^verbatim>\<open>fill_table\<close>\<close>

text \<open>A table is its columns, each the list of its values in row order.\<close>

type_synonym table = "string \<rightharpoonup> val list"

fun table_keys ::
  "(string \<rightharpoonup> registry) \<Rightarrow> (string \<times> data_key_spec) list \<Rightarrow>
   (string \<rightharpoonup> registry) \<times> string list \<Rightarrow> error + (string \<rightharpoonup> registry) \<times> string list" where
  "table_keys asts [] acc = Inr acc"
| "table_keys asts ((k, v) # kvs) (rm, fill_keys) =
     (case external v of
        None \<Rightarrow> table_keys asts kvs (rm, fill_keys)
      | Some ext \<Rightarrow>
          if ext = [] then table_keys asts kvs (rm, fill_keys)
          else (case asts [] of
                  None \<Rightarrow> Inl (KeyError [])
                | Some reg \<Rightarrow> table_keys asts kvs (rm(k \<mapsto> reg), List.insert k fill_keys)))"

fun retrieve_all :: "registry \<Rightarrow> val list \<Rightarrow> error + val list" where
  "retrieve_all reg [] = Inr []"
| "retrieve_all reg (v # vs) =
     (case retrieve reg v of
        Inl e \<Rightarrow> Inl e
      | Inr x \<Rightarrow> (case retrieve_all reg vs of Inl e \<Rightarrow> Inl e | Inr xs \<Rightarrow> Inr (x # xs)))"

fun fill_columns :: "(string \<rightharpoonup> registry) \<Rightarrow> string list \<Rightarrow> table \<Rightarrow> error + table" where
  "fill_columns rm [] t = Inr t"
| "fill_columns rm (k # ks) t =
     (case rm k of
        None \<Rightarrow> Inl (KeyError k)
      | Some reg \<Rightarrow>
          (case t k of
             None \<Rightarrow> Inl (KeyError k)
           | Some col \<Rightarrow>
               (case retrieve_all reg col of
                  Inl e \<Rightarrow> Inl e
                | Inr col' \<Rightarrow> fill_columns rm ks (t(k \<mapsto> col')))))"

definition fill_table :: "broker \<Rightarrow> table \<Rightarrow> descriptor \<Rightarrow> fields \<Rightarrow> bool \<Rightarrow> error + table" where
  "fill_table db t d flds inplace =
     (if flds = FBool False then Inr t
      else (case table_keys (assets db) (data_keys d) (Map.empty, []) of
              Inl e \<Rightarrow> Inl e
            | Inr (rm, fill_keys) \<Rightarrow>
                (case restrict_keys (norm flds) (rev fill_keys) of
                   Inl e \<Rightarrow> Inl e
                 | Inr fill_keys' \<Rightarrow> fill_columns rm (set_order db fill_keys') t)))"

section \<open>DocumentStream: \<^verbatim>\<open>get_documents\<close> and \<^verbatim>\<open>get_events\<close>\<close>

text \<open>
  Modelled from the spec: \<^verbatim>\<open>check_fields_exist\<close> of the module \<^verbatim>\<open>eventsource\<close>, which is
  not among the sources. Every name in \<^verbatim>\<open>fields\<close> must appear in at least one
  descriptor's \<^verbatim>\<open>data_keys\<close> across all given headers; it fails with \<^verbatim>\<open>FieldNotFound\<close>
  otherwise. The error carries the first name that is missing.
\<close>

definition all_fields :: "header list \<Rightarrow> string list" where
  "all_fields headers = concat (map (\<lambda>h. concat (map (\<lambda>d. map fst (data_keys d)) (descriptors h))) headers)"

definition check_fields_exist :: "string list \<Rightarrow> header list \<Rightarrow> error + unit" where
  "check_fields_exist flds headers =
     (case filter (\<lambda>f. f \<notin> set (all_fields headers)) flds of
        [] \<Rightarrow> Inr ()
      | f # _ \<Rightarrow> Inl (FieldNotFound f))"

text \<open>A generator that runs \<open>t1\<close> and then, unless \<open>t1\<close> ended in an exception, \<open>t2\<close>.\<close>

definition then_trace :: "'a trace \<Rightarrow> 'a trace \<Rightarrow> 'a trace" where
  "then_trace t1 t2 = (case snd t1 of Some e \<Rightarrow> t1 | None \<Rightarrow> (fst t1 @ fst t2, snd t2))"

text \<open>\<^verbatim>\<open>self.prepare_hook(name, doc)\<close> on a document of each kind.\<close>

fun prepare_hook :: "broker \<Rightarrow> document \<Rightarrow> error + document" where
  "prepare_hook db (DStart x) = (case prepare_start db x of Inl e \<Rightarrow> Inl e | Inr y \<Rightarrow> Inr (DStart y))"
| "prepare_hook db (DDescriptor x) =
     (case prepare_descriptor db x of Inl e \<Rightarrow> Inl e | Inr y \<Rightarrow> Inr (DDescriptor y))"
| "prepare_hook db (DEvent x) = (case prepare_event db x of Inl e \<Rightarrow> Inl e | Inr y \<Rightarrow> Inr (DEvent y))"
| "prepare_hook db (DStop x) = (case prepare_stop db x of Inl e \<Rightarrow> Inl e | Inr y \<Rightarrow> Inr (DStop y))"

text \<open>
  The loop over the documents of one event source: an event goes through the
  coroutine first, every document through the hook, and is yielded.
\<close>

fun emit_docs :: "broker \<Rightarrow> coro \<Rightarrow> document list \<Rightarrow> document trace" where
  "emit_docs db c [] = ([], None)"
| "emit_docs db c (doc # docs) =
     (case (case doc of
              DEvent ev \<Rightarrow> (case coro_send db c ev of Inl e \<Rightarrow> Inl e | Inr ev' \<Rightarrow> Inr (DEvent ev'))
            | _ \<Rightarrow> Inr doc) of
        Inl e \<Rightarrow> ([], Some e)
      | Inr doc' \<Rightarrow>
          (case prepare_hook db doc' of
             Inl e \<Rightarrow> ([], Some e)
           | Inr doc'' \<Rightarrow> (let (ys, e) = emit_docs db c docs in (doc'' # ys, e))))"

fun emit_sources ::
  "broker \<Rightarrow> coro \<Rightarrow> header \<Rightarrow> stream_name \<Rightarrow> string list option \<Rightarrow> event_source list \<Rightarrow>
   document trace" where
  "emit_sources db c h sn flds [] = ([], None)"
| "emit_sources db c h sn flds (es # ess) =
     then_trace (emit_docs db c (es h sn flds)) (emit_sources db c h sn flds ess)"

text \<open>
  The loop over the headers. Each is a \<^verbatim>\<open>Header\<close>; the coroutine is made from its
  descriptors with \<^verbatim>\<open>fields=fill, inplace=True\<close> and primed before the first event
  source is asked.
\<close>

fun emit_headers ::
  "broker \<Rightarrow> header list \<Rightarrow> stream_name \<Rightarrow> string list option \<Rightarrow> fields \<Rightarrow> document trace" where
  "emit_headers db [] sn flds fill = ([], None)"
| "emit_headers db (h # hs') sn flds fill =
     (case fill_events_coro db (descriptors h) fill True of
        Inl e \<Rightarrow> ([], Some e)
      | Inr c \<Rightarrow>
          then_trace (emit_sources db c h sn flds (event_sources db))
                     (emit_headers db hs' sn flds fill))"

text \<open>
  \<^verbatim>\<open>get_documents\<close> is a generator function: nothing of its body runs before the first
  value is asked for, and the trace is all a caller sees of it. The scope of the
  handler overrides (\<^verbatim>\<open>self.reg.handler_context\<close>) belongs to the registry; the
  registries of \<open>assets\<close> are taken as they are inside that scope.
\<close>

definition get_documents ::
  "broker \<Rightarrow> header list \<Rightarrow> stream_name \<Rightarrow> string list option \<Rightarrow> fields \<Rightarrow> document trace" where
  "get_documents db headers sn flds fill =
     (case check_fields_exist (case flds of None \<Rightarrow> [] | Some fs \<Rightarrow> fs) headers of
        Inl e \<Rightarrow> ([], Some e)
      | Inr _ \<Rightarrow> emit_headers db headers sn flds fill)"

fun events_of :: "document list \<Rightarrow> event list" where
  "events_of [] = []"
| "events_of (DEvent ev # docs) = ev # events_of docs"
| "events_of (_ # docs) = events_of docs"

definition get_events ::
  "broker \<Rightarrow> header list \<Rightarrow> stream_name \<Rightarrow> string list option \<Rightarrow> fields \<Rightarrow> event trace" where
  "get_events db headers sn flds fill =
     (let t = get_documents db headers sn flds fill in (events_of (fst t), snd t))"

section \<open>Export\<close>

text \<open>
  The metadata store of the destination Broker, as \<^verbatim>\<open>export\<close> uses it: the four
  \<^verbatim>\<open>insert_*\<close> calls, each adding one document.
\<close>

record mds =
  run_starts :: "run_start list"
  event_descriptors :: "descriptor list"
  events :: "event list"
  run_stops :: "run_stop list"

definition insert_event :: "event \<Rightarrow> mds \<Rightarrow> mds" where
  "insert_event ev m = m\<lparr>events := events m @ [ev]\<rparr>"

text \<open>
  \<^verbatim>\<open>event.pop('filled', None)\<close> and \<^verbatim>\<open>_sanitize\<close>: the event is stored without its
  \<^verbatim>\<open>filled\<close> and \<^verbatim>\<open>_name\<close> keys.
\<close>

definition strip_event :: "event \<Rightarrow> event" where
  "strip_event ev = sanitize (ev\<lparr>filled := Map.empty\<rparr>)"

text \<open>
  The loop \<^verbatim>\<open>for descriptor in header['descriptors']\<close> of \<^verbatim>\<open>export\<close>. \<^verbatim>\<open>events\<close> is one
  generator, made before the loop: the inner \<^verbatim>\<open>for event in events\<close> of the first
  descriptor runs it to its end and inserts every event it yields (and raises if it
  ends in an exception); for the later descriptors it yields nothing.
\<close>

fun export_descriptors :: "descriptor list \<Rightarrow> event trace \<Rightarrow> mds \<Rightarrow> mds \<times> error option" where
  "export_descriptors [] evs m = (m, None)"
| "export_descriptors (d # ds) evs m =
     (let m1 = m\<lparr>event_descriptors := event_descriptors m @ [d]\<rparr>;
          m2 = fold insert_event (map strip_event (fst evs)) m1
      in case snd evs of
           Some e \<Rightarrow> (m2, Some e)
         | None \<Rightarrow> export_descriptors ds ([], None) m2)"

text \<open>
  The first half of the body of the loop over the headers in \<^verbatim>\<open>export\<close>, which inserts
  the documents of one header into \<^verbatim>\<open>db.mds\<close>; the second half copies the files and
  inserts resources and datums into \<^verbatim>\<open>db.reg\<close>. \<^verbatim>\<open>self.get_events(header)\<close> is called
  with the defaults of \<^verbatim>\<open>get_events\<close>: \<^verbatim>\<open>stream_name='primary'\<close>, \<^verbatim>\<open>fields=None\<close>,
  \<^verbatim>\<open>fill=False\<close>. \<^verbatim>\<open>_sanitize(header['stop'])\<close> is \<^verbatim>\<open>dict(None)\<close> for an open run, a
  \<^verbatim>\<open>TypeError\<close>. The result is the destination afterwards and the exception, if one
  was raised.
\<close>

definition export_documents :: "broker \<Rightarrow> header \<Rightarrow> mds \<Rightarrow> mds \<times> error option" where
  "export_documents db h m =
     (let m1 = m\<lparr>run_starts := run_starts m @ [start h]\<rparr>;
          evs = get_events db [h] (Stream ''primary'') None (FBool False);
          (m2, err) = export_descriptors (descriptors h) evs m1
      in case err of
           Some e \<Rightarrow> (m2, Some e)
         | None \<Rightarrow>
             (case stop h of
                None \<Rightarrow> (m2, Some TypeError)
              | Some t \<Rightarrow> (m2\<lparr>run_stops := run_stops m2 @ [t]\<rparr>, None)))"

text \<open>
  Modelled from the spec: \<^verbatim>\<open>docs_given_header\<close> of an event source (module
  \<^verbatim>\<open>eventsource\<close>, not among the sources) that holds the events \<open>evs\<close>. It yields the
  documents of the header filtered by \<^verbatim>\<open>stream_name\<close> (the sentinel \<^verbatim>\<open>ALL\<close> bypasses the
  filter) and \<^verbatim>\<open>fields\<close>: the start document, then each descriptor of a requested
  stream followed by its events, then the stop document.
\<close>

definition in_stream :: "stream_name \<Rightarrow> descriptor \<Rightarrow> bool" where
  "in_stream sn d = (case sn of AllStreams \<Rightarrow> True | Stream n \<Rightarrow> d_name d = n)"

definition only_fields :: "string list option \<Rightarrow> event \<Rightarrow> event" where
  "only_fields flds ev =
     (case flds of
        None \<Rightarrow> ev
      | Some fs \<Rightarrow> if fs = [] then ev else ev\<lparr>data := data ev |` set fs\<rparr>)"

definition stored_events :: "event list \<Rightarrow> event_source" where
  "stored_events evs h sn flds =
     DStart (start h) #
     concat (map (\<lambda>d. DDescriptor d #
                       map (\<lambda>ev. DEvent (only_fields flds ev))
                           (filter (\<lambda>ev. descriptor ev = d_uid d) evs))
                 (filter (in_stream sn) (descriptors h))) @
     (case stop h of None \<Rightarrow> [] | Some t \<Rightarrow> [DStop t])"

section \<open>A Broker over stored runs\<close>

text \<open>
  The operator \<^verbatim>\<open>$regex\<close> of the MongoDB query syntax, which the docstring of
  \<^verbatim>\<open>__call__\<close> names as the syntax of the queries: the pattern is searched for anywhere
  in the value, it is not anchored at the start. The patterns covered are those made
  of literal characters, \<^verbatim>\<open>.\<close> for any character, and \<^verbatim>\<open>*\<close> after either for any number
  of repetitions; \<open>matches p s\<close> says that \<open>p\<close> matches at the start of \<open>s\<close>.
\<close>

definition atom :: "char \<Rightarrow> char \<Rightarrow> bool" where
  "atom c x = (c = CHR ''.'' \<or> c = x)"

fun star_tails :: "char \<Rightarrow> string \<Rightarrow> string list" where
  "star_tails c [] = [[]]"
| "star_tails c (x # t) = (x # t) # (if atom c x then star_tails c t else [])"

fun matches :: "string \<Rightarrow> string \<Rightarrow> bool" where
  "matches [] s = True"
| "matches [c] s = (case s of [] \<Rightarrow> False | x # t \<Rightarrow> atom c x)"
| "matches (c # d # p) s =
     (if d = CHR ''*'' then list_ex (matches p) (star_tails c s)
      else (case s of [] \<Rightarrow> False | x # t \<Rightarrow> atom c x \<and> matches (d # p) t))"

definition regex_search :: "string \<Rightarrow> string \<Rightarrow> bool" where
  "regex_search p s = list_ex (matches p) (suffixes s)"

text \<open>
  Modelled from the spec: a header source (module \<^verbatim>\<open>headersource\<close>, not among the
  sources) over the runs it holds, most recent first. \<^verbatim>\<open>find_run_starts\<close> returns the
  matching runs ordered by recency descending, \<^verbatim>\<open>find_last(n)\<close> the \<open>n\<close> most recent
  runs. The query \<^verbatim>\<open>uid={'$regex': pattern}\<close> is answered as the query syntax defines
  it, with the runs whose uid the pattern is found in.
\<close>

definition stored_runs :: "run_pair list \<Rightarrow> header_source" where
  "stored_runs runs =
     \<lparr>find_run_starts_uid = (\<lambda>k. filter (\<lambda>r. uid r = k) (map fst runs)),
      find_run_starts_regex = (\<lambda>pat. filter (\<lambda>r. regex_search pat (uid r)) (map fst runs)),
      find_run_starts_scan_id = (\<lambda>n. filter (\<lambda>r. scan_id r = n) (map fst runs)),
      find_last = (\<lambda>n. take (nat n) (map fst runs)),
      safe_get_stop =
        (\<lambda>r. case find (\<lambda>p. uid (fst p) = uid r) runs of None \<Rightarrow> None | Some p \<Rightarrow> snd p)\<rparr>"

text \<open>
  The names that \<^verbatim>\<open>class BrokerES\<close> and its \<^verbatim>\<open>__init__\<close> define, the special methods
  among them, but for the four properties.
\<close>

definition brokeres_attrs :: "string set" where
  "brokeres_attrs =
     {''hs'', ''event_sources'', ''assets'', ''_filters'', ''aliases'',
      ''event_source_for_insert'', ''registry_for_insert'', ''prepare_hook'',
      ''__init__'', ''add_event_source'', ''stream_names_given_header'', ''insert'',
      ''ALL'', ''_format_time'', ''add_filter'', ''clear_filters'', ''__getitem__'',
      ''__getattr__'', ''alias'', ''dynamic_alias'', ''__call__'', ''fill_event'',
      ''get_events'', ''get_documents'', ''get_table'', ''get_images'',
      ''get_resource_uids'', ''restream'', ''stream'', ''process'', ''get_fields'',
      ''export'', ''export_size'', ''fill_events'', ''_fill_events_coro'', ''fill_table''}"

text \<open>
  The names every instance of a class has: those a class statement adds
  (\<^verbatim>\<open>__dict__\<close>, \<^verbatim>\<open>__doc__\<close>, \<^verbatim>\<open>__module__\<close>, \<^verbatim>\<open>__weakref__\<close>) and the attributes of
  \<^verbatim>\<open>object\<close>, as CPython 3.11 and 3.12 have them.
\<close>

definition object_attrs :: "string set" where
  "object_attrs =
     {''__dict__'', ''__doc__'', ''__module__'', ''__weakref__'',
      ''__class__'', ''__delattr__'', ''__dir__'', ''__eq__'', ''__format__'', ''__ge__'',
      ''__getattribute__'', ''__getstate__'', ''__gt__'', ''__hash__'',
      ''__init_subclass__'', ''__le__'', ''__lt__'', ''__ne__'', ''__new__'',
      ''__reduce__'', ''__reduce_ex__'', ''__repr__'', ''__setattr__'', ''__sizeof__'',
      ''__str__'', ''__subclasshook__''}"

text \<open>
  A Broker over the runs \<open>runs\<close>, the descriptors \<open>descs\<close> by run uid and the events
  \<open>evs\<close>, with the registry \<open>reg\<close> under the name \<^verbatim>\<open>''\<close> (as \<^verbatim>\<open>Broker.__init__\<close> sets
  it), no filters, no aliases, and a hook that returns every document as it is. A
  search returns all the runs, the header source has its \<^verbatim>\<open>mds\<close>, and a set is iterated
  in the order its elements were added.
\<close>

definition broker_over ::
  "run_pair list \<Rightarrow> (string \<rightharpoonup> descriptor list) \<Rightarrow> event list \<Rightarrow> registry \<Rightarrow> broker" where
  "broker_over runs descs evs reg =
     \<lparr>hs = stored_runs runs,
      hs_call = (\<lambda>text_search fs q. Inr runs),
      filters = [],
      aliases = Map.empty,
      attrs = brokeres_attrs \<union> object_attrs,
      prepare_start = Inr,
      prepare_stop = Inr,
      prepare_missing_stop = None,
      prepare_descriptor = Inr,
      prepare_event = Inr,
      fetch_descriptors = (\<lambda>s. case descs (uid s) of None \<Rightarrow> [] | Some ds \<Rightarrow> ds),
      assets = [[] \<mapsto> reg],
      event_sources = [stored_events evs],
      mds_lookup = None,
      set_order = (\<lambda>ks. ks)\<rparr>"

text \<open>
  A handler that returns the same frame for every datum id, and a registry that holds
  the one datum \<^verbatim>\<open>'ref1'\<close>.
\<close>

definition constant_frame :: registry where
  "constant_frame = \<lparr>retrieve = (\<lambda>d_id. Inr (VArr [0]))\<rparr>"

definition one_datum :: registry where
  "one_datum =
     \<lparr>retrieve = (\<lambda>d_id. if d_id = VStr ''ref1'' then Inr (VArr [7])
                         else Inl (Raised ''DatumNotFound''))\<rparr>"

definition run :: "string \<Rightarrow> int \<Rightarrow> run_pair" where
  "run u n = (\<lparr>uid = u, scan_id = n\<rparr>, Some \<lparr>stop_uid = ''stop-'' @ u, run_start_uid = u\<rparr>)"

definition five_runs :: "run_pair list" where
  "five_runs = [run ''e5'' 5, run ''d4'' 4, run ''c3'' 3, run ''b2'' 2, run ''a1'' 1]"

definition uid36 :: string where
  "uid36 = ''f26efc1d-8263-46c8-a560-7bf73d2786e1''"

definition two_runs :: "run_pair list" where
  "two_runs =
     [run ''f26efc1d-8263-46c8-a560-7bf73d2786e1'' 2,
      run ''f26e0000-8263-46c8-a560-7bf73d2786e1'' 1]"

definition header_of :: "run_pair \<Rightarrow> descriptor list \<Rightarrow> header" where
  "header_of p ds = \<lparr>start = fst p, stop = snd p, descriptors = ds\<rparr>"

text \<open>
  Three descriptors: a primary stream with a scalar, a baseline stream and a primary
  stream with an externally stored image. One event for each.
\<close>

definition desc_primary :: descriptor where
  "desc_primary =
     \<lparr>d_uid = ''d1'', d_name = ''primary'',
      data_keys = [(''x'', \<lparr>dtype = ''number'', external = None\<rparr>)]\<rparr>"

definition desc_baseline :: descriptor where
  "desc_baseline =
     \<lparr>d_uid = ''d2'', d_name = ''baseline'',
      data_keys = [(''img'', \<lparr>dtype = ''array'', external = Some ''FILESTORE:''\<rparr>)]\<rparr>"

definition desc_primary_img :: descriptor where
  "desc_primary_img =
     \<lparr>d_uid = ''d3'', d_name = ''primary'',
      data_keys = [(''img'', \<lparr>dtype = ''array'', external = Some ''FILESTORE:''\<rparr>)]\<rparr>"

definition ev_x :: event where
  "ev_x =
     \<lparr>descriptor = ''d1'', seq_num = 1, data = [''x'' \<mapsto> VInt 1],
      filled = Map.empty, doc_name = None\<rparr>"

definition ev_base :: event where
  "ev_base =
     \<lparr>descriptor = ''d2'', seq_num = 1, data = [''img'' \<mapsto> VStr ''ref2''],
      filled = [''img'' \<mapsto> VBool False], doc_name = None\<rparr>"

definition ev_img :: event where
  "ev_img =
     \<lparr>descriptor = ''d3'', seq_num = 1, data = [''img'' \<mapsto> VStr ''ref1''],
      filled = [''img'' \<mapsto> VBool False], doc_name = None\<rparr>"

definition empty_mds :: mds where
  "empty_mds = \<lparr>run_starts = [], event_descriptors = [], events = [], run_stops = []\<rparr>"

definition fresh_broker :: broker where
  "fresh_broker = broker_over [] Map.empty [] constant_frame"

text \<open>The Broker after \<^verbatim>\<open>db.alias('mine', filters='x')\<close>.\<close>

definition aliased_broker :: broker where
  "aliased_broker = fresh_broker\<lparr>aliases := [''mine'' \<mapsto> Static [''filters'' \<mapsto> ''x'']]\<rparr>"

text \<open>A run with one baseline descriptor and one event in it, and a Broker that holds it.\<close>

definition baseline_run :: header where
  "baseline_run = header_of (run ''r1'' 1) [desc_baseline]"

definition baseline_broker :: broker where
  "baseline_broker =
     broker_over [run ''r1'' 1] [''r1'' \<mapsto> [desc_baseline]] [ev_base] constant_frame"

section \<open>The key resolver\<close>

lemma stride_one: "stride (Suc 0) xs = xs"
  by (induction xs) simp_all

lemma py_slice_from_nonneg:
  "0 \<le> j \<Longrightarrow> py_slice_from xs (Some j) None = Inr (drop (nat j) xs)"
  by (simp add: py_slice_from_def Let_def stride_one min_def)

lemma py_slice_from_start: "py_slice_from xs None None = Inr xs"
  by (simp add: py_slice_from_def Let_def stride_one)

lemma search_slice_open_stop:
  "i \<le> - 1 \<Longrightarrow>
   search_slice H (Some i) None None = Inr (with_stop H (find_last H (- i)))"
  by (simp add: search_slice_def py_slice_from_start)

lemma with_stop_map: "with_stop H rs = map (\<lambda>r. (r, safe_get_stop H r)) rs"
  by (simp add: with_stop_def zip_map2 zip_same_conv_map)

text \<open>
  Claim C6. Resolving a slice key raises \<^verbatim>\<open>InvalidRange\<close> whenever \<open>start\<close> is \<^verbatim>\<open>None\<close>,
  or \<open>start > -1\<close>, or \<open>stop > 0\<close>. Otherwise it asks the header source for the most
  recent \<open>-start\<close> runs and slices that window, most recent first, from index \<open>-stop\<close>
  with the step of the key, as Python slices a list; with no step the result is the
  window without its first \<open>-stop\<close> runs. In particular \<^verbatim>\<open>[-5:-2]\<close>, when the header
  source returns five runs for \<^verbatim>\<open>find_last(5)\<close>, gives exactly the three runs at the
  positions 2, 3 and 4 of the window, in that order, and the most recent run (position
  0) is none of them.
\<close>

theorem search_slice_resolves:
  "((a = None \<or> (\<exists>i. a = Some i \<and> i > - 1) \<or> (\<exists>j. b = Some j \<and> j > 0))
      \<longrightarrow> (\<exists>e \<in> InvalidRange. search_slice H a b c = Inl e))
   \<and> ((\<exists>i. a = Some i \<and> i \<le> - 1) \<and> (b = None \<or> (\<exists>j. b = Some j \<and> j \<le> 0))
      \<longrightarrow> search_slice H a b c =
          (case py_slice_from (find_last H (- the a)) (map_option uminus b) c of
             Inl e \<Rightarrow> Inl e
           | Inr rs \<Rightarrow> Inr (map (\<lambda>r. (r, safe_get_stop H r)) rs)))
   \<and> ((\<exists>i. a = Some i \<and> i \<le> - 1) \<and> (\<exists>j. b = Some j \<and> j \<le> 0) \<and> c = None
      \<longrightarrow> search_slice H a b c =
          Inr (map (\<lambda>r. (r, safe_get_stop H r)) (drop (nat (- the b)) (find_last H (- the a)))))
   \<and> (length (find_last H 5) = 5
      \<longrightarrow> search_slice H (Some (- 5)) (Some (- 2)) None =
            Inr (map (\<lambda>r. (r, safe_get_stop H r))
                  [find_last H 5 ! 2, find_last H 5 ! 3, find_last H 5 ! 4])
          \<and> (distinct (find_last H 5) \<longrightarrow>
               find_last H 5 ! 0 \<notin> {find_last H 5 ! 2, find_last H 5 ! 3, find_last H 5 ! 4}))"
proof (intro conjI impI)
  assume "a = None \<or> (\<exists>i. a = Some i \<and> i > - 1) \<or> (\<exists>j. b = Some j \<and> j > 0)"
  then show "\<exists>e \<in> InvalidRange. search_slice H a b c = Inl e"
    by (cases a; cases b) (auto simp: search_slice_def InvalidRange_def)
next
  assume "(\<exists>i. a = Some i \<and> i \<le> - 1) \<and> (b = None \<or> (\<exists>j. b = Some j \<and> j \<le> 0))"
  then show "search_slice H a b c =
          (case py_slice_from (find_last H (- the a)) (map_option uminus b) c of
             Inl e \<Rightarrow> Inl e
           | Inr rs \<Rightarrow> Inr (map (\<lambda>r. (r, safe_get_stop H r)) rs))"
    by (auto simp: search_slice_def with_stop_map split: sum.splits)
next
  assume "(\<exists>i. a = Some i \<and> i \<le> - 1) \<and> (\<exists>j. b = Some j \<and> j \<le> 0) \<and> c = None"
  then show "search_slice H a b c =
          Inr (map (\<lambda>r. (r, safe_get_stop H r)) (drop (nat (- the b)) (find_last H (- the a))))"
    by (auto simp: search_slice_def with_stop_map py_slice_from_nonneg)
next
  assume len: "length (find_last H 5) = 5"
  then obtain x0 x1 x2 x3 x4 where xs: "find_last H 5 = [x0, x1, x2, x3, x4]"
    by (auto simp: length_Suc_conv eval_nat_numeral)
  show "search_slice H (Some (- 5)) (Some (- 2)) None =
            Inr (map (\<lambda>r. (r, safe_get_stop H r))
                  [find_last H 5 ! 2, find_last H 5 ! 3, find_last H 5 ! 4])"
    by (simp add: search_slice_def with_stop_map py_slice_from_nonneg xs eval_nat_numeral)
  show "find_last H 5 ! 0 \<notin> {find_last H 5 ! 2, find_last H 5 ! 3, find_last H 5 ! 4}"
    if "distinct (find_last H 5)"
    using that by (auto simp: xs eval_nat_numeral)
qed

theorem search_slice_resolves_witness:
  "length (find_last (stored_runs five_runs) 5) = 5
   \<and> distinct (find_last (stored_runs five_runs) 5)
   \<and> search_slice (stored_runs five_runs) (Some (- 5)) (Some (- 2)) None =
       Inr [run ''c3'' 3, run ''b2'' 2, run ''a1'' 1]
   \<and> search_slice (stored_runs five_runs) (Some 0) None None = Inl (ValueError StartMustBeNegative)"
  using search_slice_resolves [of "Some (- 5)" "Some (- 2)" "stored_runs five_runs" None]
        search_slice_resolves [of "Some 0" None "stored_runs five_runs" None]
  by (simp add: stored_runs_def five_runs_def run_def search_slice_def)

text \<open>
  A string key of length 36 for which the exact-uid query returns one run resolves to
  that run, whatever the pattern query would return: the fallback is not consulted.
  Otherwise the answer of the pattern query \<^verbatim>\<open>key.*\<close> decides.
\<close>

lemma search_str_exact:
  "length k = 36 \<Longrightarrow> find_run_starts_uid H k = [r] \<Longrightarrow>
   search_str (H\<lparr>find_run_starts_regex := f\<rparr>) k = Inr [(r, safe_get_stop H r)]"
  by (simp add: search_str_def)

lemma search_str_fallback:
  "length k \<noteq> 36 \<or> find_run_starts_uid H k = [] \<Longrightarrow>
   search_str H k =
     (case find_run_starts_regex H (k @ ''.*'') of
        [] \<Rightarrow> Inl (ValueError NoSuchRun)
      | [m] \<Rightarrow> Inr [(m, safe_get_stop H m)]
      | m # m' # ms \<Rightarrow>
          Inl (ValueError (MatchesRuns (length (find_run_starts_regex H (k @ ''.*''))))))"
  by (auto simp: search_str_def Let_def split: list.splits)

lemma search_str_exact_example:
  "search_str ((stored_runs two_runs)\<lparr>find_run_starts_regex := (\<lambda>pat. map fst two_runs)\<rparr>) uid36
     = Inr [run uid36 2]"
  using search_str_exact [of uid36 "stored_runs two_runs" "fst (run uid36 2)"
          "\<lambda>pat. map fst two_runs"]
  by (simp add: stored_runs_def two_runs_def run_def uid36_def)

text \<open>
  Claim C5 fails on the code in its second half. The fallback is not a prefix match:
  the resolver sends the key, unescaped, in the pattern \<^verbatim>\<open>key.*\<close> of a \<^verbatim>\<open>$regex\<close> query,
  which is searched for anywhere in the uid. With the two runs
  \<^verbatim>\<open>f26efc1d-8263-...\<close> and \<^verbatim>\<open>f26e0000-8263-...\<close> stored, the key \<^verbatim>\<open>fc1d\<close>, with which
  no uid begins, resolves to the first run; so does the key \<^verbatim>\<open>f26e.c\<close>, whose dot
  stands for any character; and the key \<^verbatim>\<open>8263\<close>, with which no uid begins either, is
  ambiguous.
\<close>

theorem search_str_fallback_not_prefix:
  "search_str (stored_runs two_runs) ''fc1d'' = Inr [run uid36 2]
   \<and> filter (\<lambda>p. prefix ''fc1d'' (uid (fst p))) two_runs = []
   \<and> search_str (stored_runs two_runs) ''f26e.c'' = Inr [run uid36 2]
   \<and> filter (\<lambda>p. prefix ''f26e.c'' (uid (fst p))) two_runs = []
   \<and> search_str (stored_runs two_runs) ''8263'' = Inl (ValueError (MatchesRuns 2))
   \<and> filter (\<lambda>p. prefix ''8263'' (uid (fst p))) two_runs = []"
  by (simp add: search_str_def stored_runs_def two_runs_def run_def uid36_def
        regex_search_def atom_def)

text \<open>
  Claim C10. Indexing the Broker with an empty list, tuple or set returns an empty
  list and raises nothing: the resolver returns no pairs for it, and a key that is a
  list, a tuple or a set is never squeezed to a bare Header, whatever it holds.
\<close>

theorem getitem_empty_collection:
  "getitem db (KSeq []) = Inr (Headers [])
   \<and> getitem db (KTuple []) = Inr (Headers [])
   \<and> getitem db (KSet []) = Inr (Headers [])
   \<and> search H (KSeq []) = Inr [] \<and> search H (KTuple []) = Inr [] \<and> search H (KSet []) = Inr []
   \<and> (\<forall>ks h. getitem db (KSeq ks) \<noteq> Inr (Squeezed h)
            \<and> getitem db (KTuple ks) \<noteq> Inr (Squeezed h)
            \<and> getitem db (KSet ks) \<noteq> Inr (Squeezed h))"
  by (simp add: getitem_def split: sum.splits)

section \<open>The results view\<close>

lemma results_iter_avail:
  "res_buffer (fst (results_iter db r limit)) @ res_source (fst (results_iter db r limit))
     = res_buffer r @ res_source r"
  by (cases "iter_headers db (res_data_key r)
               (case limit of None \<Rightarrow> res_buffer r @ res_source r
                | Some n \<Rightarrow> take n (res_buffer r @ res_source r))")
     (simp add: results_iter_def Let_def)

lemma results_iter_data_key:
  "res_data_key (fst (results_iter db r limit)) = res_data_key r"
  by (cases "iter_headers db (res_data_key r)
               (case limit of None \<Rightarrow> res_buffer r @ res_source r
                | Some n \<Rightarrow> take n (res_buffer r @ res_source r))")
     (simp add: results_iter_def Let_def)

lemma results_iter_complete:
  "snd (results_iter db r None)
     = snd (iter_headers db (res_data_key r) (res_buffer r @ res_source r))"
  by (cases "iter_headers db (res_data_key r) (res_buffer r @ res_source r)")
     (simp add: results_iter_def Let_def)

text \<open>
  Claim C8. After a first iteration of a \<^verbatim>\<open>Results\<close> view, run to its end or abandoned
  after any number of pairs, a second iteration yields what a first complete iteration
  yields: the same Headers, hence the same sequence of RunStart uids, and the same
  exception if one ends it. The first iteration does not lose any of the source
  sequence: what the view has buffered and what its source has yet to yield are
  together what they were before.
\<close>

theorem results_iter_twice:
  "snd (results_iter db (fst (results_iter db r limit)) None) = snd (results_iter db r None)
   \<and> map (uid \<circ> start) (fst (snd (results_iter db (fst (results_iter db r limit)) None)))
       = map (uid \<circ> start) (fst (snd (results_iter db r None)))
   \<and> res_buffer (fst (results_iter db r limit)) @ res_source (fst (results_iter db r limit))
       = res_buffer r @ res_source r"
  by (simp add: results_iter_complete results_iter_avail results_iter_data_key)

section \<open>Aliases\<close>

lemma register_alias_found:
  "ordinary_lookup db k = Found \<Longrightarrow> register_alias db k v =
     (if aliases db k = None then Inl (ValueError NotLegalAlias)
      else Inr (db\<lparr>aliases := (aliases db)(k \<mapsto> v)\<rparr>))"
  by (simp add: register_alias_def broker_hasattr_def)

lemma register_alias_getter_raises:
  "ordinary_lookup db k = Failing e \<Longrightarrow> \<forall>x. e \<noteq> AttributeError x \<Longrightarrow>
   register_alias db k v = Inl e"
  by (cases e) (simp_all add: register_alias_def broker_hasattr_def)

lemma register_alias_new:
  "ordinary_lookup db k = Missing \<Longrightarrow> aliases db k = None \<Longrightarrow>
   register_alias db k v = Inr (db\<lparr>aliases := (aliases db)(k \<mapsto> v)\<rparr>)"
  by (simp add: register_alias_def broker_hasattr_def getattr_fallback_def broker_getattr_def)

lemma register_alias_again_ok:
  "ordinary_lookup db k = Missing \<Longrightarrow> aliases db k \<noteq> None \<Longrightarrow>
   broker_getattr db k = Inr res \<Longrightarrow>
   register_alias db k v = Inr (db\<lparr>aliases := (aliases db)(k \<mapsto> v)\<rparr>)"
  by (auto simp: register_alias_def broker_hasattr_def getattr_fallback_def)

lemma register_alias_again_raises:
  "ordinary_lookup db k = Missing \<Longrightarrow> broker_getattr db k = Inl e \<Longrightarrow>
   \<forall>x. e \<noteq> AttributeError x \<Longrightarrow> register_alias db k v = Inl e"
  by (cases e) (simp_all add: register_alias_def broker_hasattr_def getattr_fallback_def)

text \<open>
  What the registration does on a fresh Broker: a name of the class, a special method
  among them, is not a legal alias; a new name is registered; with no registry under
  \<^verbatim>\<open>''\<close> the name \<^verbatim>\<open>reg\<close> runs the getter of the property, whose \<^verbatim>\<open>KeyError\<close> comes out of
  \<^verbatim>\<open>alias\<close>; a query with the keyword \<^verbatim>\<open>key\<close> is a \<^verbatim>\<open>TypeError\<close>.
\<close>

lemma alias_query_examples:
  "alias_query fresh_broker ''alias'' Map.empty = Inl (ValueError NotLegalAlias)
   \<and> alias_query fresh_broker ''__init__'' Map.empty = Inl (ValueError NotLegalAlias)
   \<and> alias_query fresh_broker ''__class__'' Map.empty = Inl (ValueError NotLegalAlias)
   \<and> alias_query fresh_broker ''reg'' Map.empty = Inl (ValueError NotLegalAlias)
   \<and> alias_query (fresh_broker\<lparr>assets := Map.empty\<rparr>) ''reg'' Map.empty = Inl (KeyError [])
   \<and> alias_query fresh_broker ''cal'' [''key'' \<mapsto> ''y''] = Inl TypeError
   \<and> alias_query fresh_broker ''cal'' [''purpose'' \<mapsto> ''calibration'']
       = Inr (fresh_broker\<lparr>aliases := [''cal'' \<mapsto> Static [''purpose'' \<mapsto> ''calibration'']]\<rparr>)"
  by (simp add: alias_query_def register_alias_def broker_hasattr_def getattr_fallback_def
        broker_getattr_def ordinary_lookup_def fresh_broker_def broker_over_def
        brokeres_attrs_def object_attrs_def)

text \<open>
  Claim C9 fails on the code. The guard \<^verbatim>\<open>key not in self.aliases\<close> is there to let a
  registered alias be registered again, but \<^verbatim>\<open>hasattr(self, key)\<close> comes first, and on
  a name that is an alias and nothing else it calls \<^verbatim>\<open>__getattr__\<close>, which runs the
  stored query. After \<^verbatim>\<open>db.alias('mine', filters='x')\<close>, which succeeds, \<^verbatim>\<open>'mine'\<close> is a
  registered alias, and registering it again raises \<^verbatim>\<open>TypeError\<close>: \<^verbatim>\<open>self(filters='x')\<close>
  passes the keyword \<^verbatim>\<open>filters\<close> twice to the header source. The aliases are not
  changed.
\<close>

theorem alias_reregister_raises:
  "alias_query fresh_broker ''mine'' [''filters'' \<mapsto> ''x''] = Inr aliased_broker
   \<and> aliases aliased_broker ''mine'' = Some (Static [''filters'' \<mapsto> ''x''])
   \<and> ordinary_lookup aliased_broker ''mine'' = Missing
   \<and> alias_query aliased_broker ''mine'' [''user'' \<mapsto> ''Dan''] = Inl TypeError
   \<and> dynamic_alias aliased_broker ''mine'' (Inr [''user'' \<mapsto> ''Dan'']) = Inl TypeError"
  by (simp add: alias_query_def dynamic_alias_def register_alias_def broker_hasattr_def
        getattr_fallback_def broker_getattr_def call_with_query_def broker_call_def
        ordinary_lookup_def aliased_broker_def fresh_broker_def broker_over_def
        brokeres_attrs_def object_attrs_def)

section \<open>The fill pipeline\<close>

lemma send_all_passthrough: "send_all db Passthrough evs = (evs, None)"
  by (induction evs) simp_all

text \<open>
  Claim C4. Filling with \<^verbatim>\<open>fields=False\<close> is the identity, for every sequence of events,
  every descriptor set and either value of \<^verbatim>\<open>inplace\<close>: the coroutine is the
  pass-through loop, every event sent to it comes back as it is, the trace of
  \<^verbatim>\<open>fill_events\<close> is the input sequence with no exception, and \<^verbatim>\<open>fill_table\<close> returns
  the table it was given.
\<close>

theorem fill_false_is_identity:
  "fill_events db evs descs (FBool False) inplace = (evs, None)
   \<and> fill_events_coro db descs (FBool False) inplace = Inr Passthrough
   \<and> coro_send db Passthrough ev = Inr ev
   \<and> fill_table db t d (FBool False) inplace = Inr t"
  by (simp add: fill_events_def fill_events_coro_def fill_table_def send_all_passthrough)

text \<open>
  One step of the filling loop does what the docstring of \<^verbatim>\<open>fill_events\<close> says: the
  data of the key becomes what \<^verbatim>\<open>retrieve\<close> returns for the reference id that was
  there, and \<^verbatim>\<open>filled\<close> holds that reference id.
\<close>

lemma fill_key_result:
  "fill_key rm ev dk = Inr ev' \<Longrightarrow>
   \<exists>d_id reg payload. data ev dk = Some d_id \<and> rm (descriptor ev, dk) = Some reg
     \<and> retrieve reg d_id = Inr payload
     \<and> ev' = ev\<lparr>data := (data ev)(dk \<mapsto> payload), filled := (filled ev)(dk \<mapsto> d_id)\<rparr>"
  by (auto simp: fill_key_def split: option.splits sum.splits)

text \<open>
  So does the loop over a list of keys in which no key comes twice: when it returns,
  each of the keys holds the payload of the reference id it held before and \<^verbatim>\<open>filled\<close>
  holds that id, and no other key of the event has changed.
\<close>

lemma fill_keys_loop_distinct:
  "distinct dks \<Longrightarrow> fill_keys_loop rm dks ev = Inr ev' \<Longrightarrow>
   descriptor ev' = descriptor ev
   \<and> (\<forall>dk \<in> set dks. \<exists>d_id reg payload.
          data ev dk = Some d_id \<and> rm (descriptor ev, dk) = Some reg
          \<and> retrieve reg d_id = Inr payload
          \<and> data ev' dk = Some payload \<and> filled ev' dk = Some d_id)
   \<and> (\<forall>k. k \<notin> set dks \<longrightarrow> data ev' k = data ev k \<and> filled ev' k = filled ev k)"
proof (induction dks arbitrary: ev)
  case Nil
  then show ?case by simp
next
  case (Cons dk dks)
  from Cons.prems(2) obtain ev1 where
    step: "fill_key rm ev dk = Inr ev1" and rest: "fill_keys_loop rm dks ev1 = Inr ev'"
    by (auto split: sum.splits)
  from fill_key_result [OF step] obtain d_id reg payload where
    d: "data ev dk = Some d_id" and r: "rm (descriptor ev, dk) = Some reg"
    and p: "retrieve reg d_id = Inr payload"
    and ev1: "ev1 = ev\<lparr>data := (data ev)(dk \<mapsto> payload), filled := (filled ev)(dk \<mapsto> d_id)\<rparr>"
    by blast
  from Cons.prems(1) have dist: "distinct dks" and fresh: "dk \<notin> set dks"
    by simp_all
  note ih = Cons.IH [OF dist rest]
  have desc: "descriptor ev1 = descriptor ev"
    by (simp add: ev1)
  have other: "data ev1 k = data ev k \<and> filled ev1 k = filled ev k" if "k \<noteq> dk" for k
    using that by (simp add: ev1)
  have here: "data ev' dk = Some payload \<and> filled ev' dk = Some d_id"
    using ih fresh by (simp add: ev1)
  show ?case
  proof (intro conjI ballI allI impI)
    show "descriptor ev' = descriptor ev"
      using ih desc by simp
  next
    fix k assume k: "k \<in> set (dk # dks)"
    show "\<exists>d_id reg payload.
          data ev k = Some d_id \<and> rm (descriptor ev, k) = Some reg
          \<and> retrieve reg d_id = Inr payload
          \<and> data ev' k = Some payload \<and> filled ev' k = Some d_id"
    proof (cases "k = dk")
      case True
      then show ?thesis using d r p here by simp
    next
      case False
      with k have "k \<in> set dks" by simp
      with ih obtain d_id' reg' payload' where
        "data ev1 k = Some d_id'" "rm (descriptor ev1, k) = Some reg'"
        "retrieve reg' d_id' = Inr payload'"
        "data ev' k = Some payload'" "filled ev' k = Some d_id'"
        by blast
      then show ?thesis using other [OF False] desc by simp
    qed
  next
    fix k assume "k \<notin> set (dk # dks)"
    then have "k \<noteq> dk" "k \<notin> set dks" by simp_all
    then show "data ev' k = data ev k" using ih other by simp
  next
    fix k assume "k \<notin> set (dk # dks)"
    then have "k \<noteq> dk" "k \<notin> set dks" by simp_all
    then show "filled ev' k = filled ev k" using ih other by simp
  qed
qed

text \<open>
  The coroutine, though, runs the loop over the keys of all the descriptors. With a
  registry that holds the datum of the event and nothing else, an event whose key is
  external in a second descriptor too is not filled at all: the second pass asks the
  registry for the payload of the first.
\<close>

lemma fill_events_shared_key_fails:
  "fill_events (broker_over [] Map.empty [] one_datum) [ev_img] [desc_primary_img, desc_baseline]
       (FBool True) True
     = ([], Some (Raised ''DatumNotFound''))"
  by (simp add: fill_events_def fill_events_coro_def broker_over_def
        desc_primary_img_def desc_baseline_def ev_img_def fill_key_def one_datum_def)

text \<open>
  Claim C1 fails on the code. The loop of the coroutine runs over the fill keys of
  every descriptor it was given, not over those of the event's own descriptor: an event
  of the primary descriptor, which has no external key, sent through the pipeline
  together with a baseline descriptor whose \<^verbatim>\<open>img\<close> is external, ends the pipeline with
  \<^verbatim>\<open>KeyError('img')\<close>. With its own descriptor alone the event passes unchanged.
\<close>

theorem fill_events_other_descriptor_fails:
  "fill_events fresh_broker [ev_x] [desc_primary, desc_baseline] (FBool True) True
     = ([], Some (KeyError ''img''))
   \<and> fill_events fresh_broker [ev_x] [desc_primary] (FBool True) True = ([ev_x], None)"
  by (simp add: fill_events_def fill_events_coro_def fresh_broker_def broker_over_def
        desc_primary_def desc_baseline_def ev_x_def fill_key_def)

text \<open>
  Claim C3 fails on the code for the same reason. When two descriptors of the set
  mark the same key external, the loop fills the key of an event twice: the second
  pass sends the payload of the first to \<^verbatim>\<open>retrieve\<close> and stores that payload in
  \<^verbatim>\<open>filled\<close>. With a handler that returns a frame for whatever it is asked, \<^verbatim>\<open>filled\<close>
  ends up holding the frame, not the reference id \<^verbatim>\<open>'ref1'\<close> that was in the data. With
  the event's own descriptor alone, \<^verbatim>\<open>filled\<close> holds the reference id.
\<close>

theorem fill_events_shared_key_filled_twice:
  "map (\<lambda>e. (data e ''img'', filled e ''img''))
       (fst (fill_events fresh_broker [ev_img] [desc_primary_img, desc_baseline] (FBool True) True))
     = [(Some (VArr [0]), Some (VArr [0]))]
   \<and> snd (fill_events fresh_broker [ev_img] [desc_primary_img, desc_baseline] (FBool True) True)
     = None
   \<and> data ev_img ''img'' = Some (VStr ''ref1'')
   \<and> retrieve constant_frame (VStr ''ref1'') = Inr (VArr [0])
   \<and> map (\<lambda>e. (data e ''img'', filled e ''img''))
       (fst (fill_events fresh_broker [ev_img] [desc_primary_img] (FBool True) True))
     = [(Some (VArr [0]), Some (VStr ''ref1''))]"
  by (simp add: fill_events_def fill_events_coro_def fresh_broker_def broker_over_def
        desc_primary_img_def desc_baseline_def ev_img_def fill_key_def constant_frame_def)

section \<open>The document stream and export\<close>

text \<open>
  Claim C7. When the \<^verbatim>\<open>fields\<close> whitelist of \<^verbatim>\<open>get_documents\<close> names a field that is in
  no descriptor's \<^verbatim>\<open>data_keys\<close> across the given headers, the generator ends with
  \<^verbatim>\<open>FieldNotFound\<close> for such a name and has yielded nothing: the check runs once,
  before the first header is looked at.
\<close>

theorem get_documents_field_not_found:
  "f \<in> set fs \<and> f \<notin> set (all_fields headers)
     \<longrightarrow> (\<exists>g. g \<in> set fs \<and> g \<notin> set (all_fields headers)
              \<and> get_documents db headers sn (Some fs) fill = ([], Some (FieldNotFound g)))"
proof
  assume a: "f \<in> set fs \<and> f \<notin> set (all_fields headers)"
  then have "filter (\<lambda>f. f \<notin> set (all_fields headers)) fs \<noteq> []"
    by (auto simp: filter_empty_conv)
  then obtain g gs where g: "filter (\<lambda>f. f \<notin> set (all_fields headers)) fs = g # gs"
    by (cases "filter (\<lambda>f. f \<notin> set (all_fields headers)) fs") auto
  then have "g \<in> set (filter (\<lambda>f. f \<notin> set (all_fields headers)) fs)"
    by simp
  then have "g \<in> set fs" "g \<notin> set (all_fields headers)"
    by auto
  moreover have "get_documents db headers sn (Some fs) fill = ([], Some (FieldNotFound g))"
    by (simp add: get_documents_def check_fields_exist_def g)
  ultimately show "\<exists>g. g \<in> set fs \<and> g \<notin> set (all_fields headers)
              \<and> get_documents db headers sn (Some fs) fill = ([], Some (FieldNotFound g))"
    by blast
qed

theorem get_documents_field_not_found_witness:
  "''nope'' \<in> set [''img'', ''nope'']
   \<and> ''nope'' \<notin> set (all_fields [baseline_run])
   \<and> get_documents baseline_broker [baseline_run] AllStreams (Some [''img'', ''nope''])
        (FBool True)
       = ([], Some (FieldNotFound ''nope''))"
  using get_documents_field_not_found [of "''nope''" "[''img'', ''nope'']" "[baseline_run]"
          baseline_broker AllStreams "FBool True"]
  by (simp add: all_fields_def baseline_run_def header_of_def desc_baseline_def
        get_documents_def check_fields_exist_def)

text \<open>
  Claim C2 fails on the code. \<^verbatim>\<open>export\<close> takes the events from
  \<^verbatim>\<open>self.get_events(header)\<close>, whose stream defaults to \<^verbatim>\<open>'primary'\<close>: of a run whose one
  descriptor is a baseline stream with one event, the destination receives the start,
  the descriptor and the stop, and no event, while the run has one event.
\<close>

theorem export_drops_other_streams:
  "export_documents baseline_broker baseline_run empty_mds
     = (\<lparr>run_starts = [fst (run ''r1'' 1)], event_descriptors = [desc_baseline], events = [],
         run_stops = [the (snd (run ''r1'' 1))]\<rparr>, None)
   \<and> events_of (stored_events [ev_base] baseline_run AllStreams None) = [ev_base]"
  by (simp add: export_documents_def get_events_def get_documents_def check_fields_exist_def
        fill_events_coro_def then_trace_def baseline_broker_def baseline_run_def
        broker_over_def stored_events_def in_stream_def only_fields_def header_of_def run_def
        desc_baseline_def ev_base_def empty_mds_def)

end
